theory Spec2Isabelle
  imports Main
begin

section \<open>Python values, exceptions and the logging sink\<close>

text \<open>
  The four modules \<^verbatim>\<open>awadhfree.py\<close>, \<^verbatim>\<open>cdsfree.py\<close>, \<^verbatim>\<open>icsfree.py\<close> and
  \<^verbatim>\<open>verbalfree.py\<close> are shims: each defines placeholder functions and a module-level
  \<^verbatim>\<open>__getattr__\<close> that manufactures a stub for a missing name.

  A Python value that can travel through \<^verbatim>\<open>*args\<close> and \<^verbatim>\<open>**kwargs\<close> is a \<open>pyval\<close>.
  A tuple and a list are sequences and a dict is an association list in insertion order
  (keyword names are strings). Objects whose class defines a \<^verbatim>\<open>__repr__\<close> of its own are
  outside the model.
\<close>

datatype pyval =
    PNone
  | PBool bool
  | PInt int
  | PStr string
  | PTuple "pyval list"
  | PList "pyval list"
  | PDict "(string \<times> pyval) list"

text \<open>
  The exceptions that the modelled code can raise. \<open>AttributeError\<close> carries the message
  the source formats. \<open>TypeError\<close> is what the interpreter raises when a function is
  called with arguments its signature does not take; it carries the callee's name.
  \<open>RecursionError\<close> is what the interpreter raises when a value is nested more deeply
  than it can still recurse.
\<close>

datatype pyerror = AttributeError string | TypeError string | RecursionError

datatype level = DEBUG | INFO | WARNING

text \<open>The numbers of the levels in \<^verbatim>\<open>logging\<close>.\<close>

fun level_no :: "level \<Rightarrow> nat" where
  "level_no DEBUG = 10"
| "level_no INFO = 20"
| "level_no WARNING = 30"

text \<open>
  How many calls of \<^verbatim>\<open>repr\<close>, one inside the other, it takes to print a value: one
  for a value that holds no other, and one more than its deepest element for a tuple, a
  list or a dict.
\<close>

fun nesting :: "pyval \<Rightarrow> nat" where
  "nesting (PTuple vs) = Suc (foldr max (map nesting vs) 0)"
| "nesting (PList vs) = Suc (foldr max (map nesting vs) 0)"
| "nesting (PDict kvs) = Suc (foldr max (map (\<lambda>kv. nesting (snd kv)) kvs) 0)"
| "nesting v = 1"

text \<open>The list \<^verbatim>\<open>[[...[None]...]]\<close> with \<open>n\<close> pairs of brackets.\<close>

fun deep :: "nat \<Rightarrow> pyval" where
  "deep 0 = PNone"
| "deep (Suc n) = PList [deep n]"

text \<open>
  One call of a \<^verbatim>\<open>logging.Logger\<close> method: the logger's name, the method called, the
  message template and the values passed for its \<^verbatim>\<open>%s\<close> places. A template is the
  text of the source file, byte for byte. The call is what is recorded, whether or not a
  handler prints it.
\<close>

record event =
  ev_logger :: string
  ev_level :: level
  ev_msg :: string
  ev_args :: "pyval list"

text \<open>
  The state threaded through the code: the calls received by the logging sink, oldest
  first, and the serial number of the next function object. A function object's serial
  number is its identity. \<open>depth_left\<close> belongs to the interpreter: it is the number of
  nested \<^verbatim>\<open>repr\<close> calls that can still be made when a logging handler formats a record
  (the recursion limit less what is in use). No code of the modules changes it.
\<close>

record st =
  events :: "event list"
  next_id :: nat
  depth_left :: nat

type_synonym 'a res = "(pyerror + 'a) \<times> st"

type_synonym pyfun = "pyval list \<Rightarrow> (string \<times> pyval) list \<Rightarrow> st \<Rightarrow> pyval res"

record funobj =
  obj_id :: nat
  fn_name :: string
  fn_doc :: "string option"
  fn_call :: pyfun

text \<open>
  \<^verbatim>\<open>logger.debug/info/warning(msg, *args)\<close> with \<^verbatim>\<open>logger = logging.getLogger(__name__)\<close>,
  under the configuration that the module's own \<^verbatim>\<open>logging.basicConfig(level=logging.INFO)\<close>
  installs: the root logger at level INFO with one \<^verbatim>\<open>StreamHandler\<close>. A call below INFO is
  dropped before anything is formatted. Otherwise the handler formats \<^verbatim>\<open>msg % args\<close>,
  which prints every argument; \<^verbatim>\<open>StreamHandler.emit\<close> lets a \<^verbatim>\<open>RecursionError\<close> through to
  the caller and swallows every other exception of the formatting.
\<close>

definition logger_log :: "string \<Rightarrow> level \<Rightarrow> string \<Rightarrow> pyval list \<Rightarrow> st \<Rightarrow> unit res" where
  "logger_log lname lvl msg args s =
     (let s' = s\<lparr>events := events s @
                  [\<lparr>ev_logger = lname, ev_level = lvl, ev_msg = msg, ev_args = args\<rparr>]\<rparr>
      in if level_no INFO \<le> level_no lvl \<and> list_ex (\<lambda>v. depth_left s < nesting v) args
         then (Inl RecursionError, s')
         else (Inr (), s'))"

text \<open>A body that makes one logger call and then returns a value.\<close>

definition returning :: "unit res \<Rightarrow> pyval \<Rightarrow> pyval res" where
  "returning r v = (case r of (Inl e, s) \<Rightarrow> (Inl e, s) | (Inr u, s) \<Rightarrow> (Inr v, s))"

text \<open>
  Executing a \<^verbatim>\<open>def\<close> statement creates a new function object with the given
  \<^verbatim>\<open>__name__\<close>, \<^verbatim>\<open>__doc__\<close> and body.
\<close>

definition new_function :: "string \<Rightarrow> string option \<Rightarrow> pyfun \<Rightarrow> st \<Rightarrow> funobj \<times> st" where
  "new_function nm doc body s =
     (\<lparr>obj_id = next_id s, fn_name = nm, fn_doc = doc, fn_call = body\<rparr>,
      s\<lparr>next_id := Suc (next_id s)\<rparr>)"

text \<open>
  A function declared without parameters, \<^verbatim>\<open>def f() -> None\<close>: the interpreter
  raises \<^verbatim>\<open>TypeError\<close> before the body runs when any argument is passed.
\<close>

definition no_params :: "string \<Rightarrow> (st \<Rightarrow> pyval res) \<Rightarrow> pyfun" where
  "no_params fname body args kwargs s =
     (if args = [] \<and> kwargs = [] then body s else (Inl (TypeError fname), s))"

text \<open>What a computation returned, and what it raised.\<close>

definition returned :: "'a res \<Rightarrow> 'a option" where
  "returned r = (case fst r of Inl e \<Rightarrow> None | Inr v \<Rightarrow> Some v)"

definition raised :: "'a res \<Rightarrow> pyerror option" where
  "raised r = (case fst r of Inl e \<Rightarrow> Some e | Inr v \<Rightarrow> None)"

text \<open>Subscription \<^verbatim>\<open>d[k]\<close> of a dict, as an option.\<close>

definition dict_get :: "pyval \<Rightarrow> string \<Rightarrow> pyval option" where
  "dict_get d k = (case d of PDict kvs \<Rightarrow> map_of kvs k | _ \<Rightarrow> None)"

section \<open>Strings\<close>

text \<open>\<^verbatim>\<open>s.startswith(p)\<close> for one prefix, and for a tuple of prefixes (any of them).\<close>

definition startswith1 :: "string \<Rightarrow> string \<Rightarrow> bool" where
  "startswith1 s p = (take (length p) s = p)"

definition startswith :: "string \<Rightarrow> string list \<Rightarrow> bool" where
  "startswith s ps = list_ex (startswith1 s) ps"

text \<open>
  \<^verbatim>\<open>str.isidentifier()\<close>. A character is read as the code point of its number, so the
  model covers the code points below 256. The first character is an underscore or has
  the Unicode property XID\_Start, the others have XID\_Continue, and the empty string is
  not an identifier.
\<close>

definition is_xid_start :: "char \<Rightarrow> bool" where
  "is_xid_start c =
     (let n = (of_char c :: nat) in
        (65 \<le> n \<and> n \<le> 90) \<or> (97 \<le> n \<and> n \<le> 122) \<or> n = 170 \<or> n = 181 \<or> n = 186 \<or>
        (192 \<le> n \<and> n \<le> 214) \<or> (216 \<le> n \<and> n \<le> 246) \<or> (248 \<le> n \<and> n \<le> 255))"

definition is_xid_continue :: "char \<Rightarrow> bool" where
  "is_xid_continue c =
     (let n = (of_char c :: nat) in
        is_xid_start c \<or> (48 \<le> n \<and> n \<le> 57) \<or> n = 95 \<or> n = 183)"

definition isidentifier :: "string \<Rightarrow> bool" where
  "isidentifier s =
     (case s of
        [] \<Rightarrow> False
      | c # cs \<Rightarrow> (is_xid_start c \<or> c = CHR ''_'') \<and> list_all is_xid_continue cs)"

text \<open>The f-strings of the source; \<open>CHR 0x27\<close> is the single quote.\<close>

definition no_attribute_msg :: "string \<Rightarrow> string \<Rightarrow> string" where
  "no_attribute_msg mname name =
     ''module '' @ [CHR 0x27] @ mname @ [CHR 0x27] @ '' has no attribute '' @
     [CHR 0x27] @ name @ [CHR 0x27]"

definition stub_doc :: "string \<Rightarrow> string" where
  "stub_doc name = ''Auto-generated stub for missing symbol '' @ [CHR 0x27] @ name @ [CHR 0x27]"

section \<open>The dynamic fallback of each module\<close>

text \<open>
  Every definition below takes the module's \<^verbatim>\<open>__name__\<close> first: it names the logger
  and appears in the \<^verbatim>\<open>AttributeError\<close> message.
\<close>

subsection \<open>awadhfree.py\<close>

text \<open>The closure \<^verbatim>\<open>_dummy\<close> of \<^verbatim>\<open>_make_dummy\<close>, with \<^verbatim>\<open>name\<close> captured.\<close>

definition dummy :: "string \<Rightarrow> string \<Rightarrow> pyfun" where
  "dummy mname name args kwargs s =
     returning
       (logger_log mname WARNING ''Called fallback stub %s with args=%s kwargs=%s''
          [PStr name, PTuple args, PDict kwargs] s)
       (PDict [(''stub'', PStr name), (''args'', PTuple args), (''kwargs'', PDict kwargs)])"

definition make_dummy :: "string \<Rightarrow> string \<Rightarrow> st \<Rightarrow> funobj \<times> st" where
  "make_dummy mname name s =
     (case new_function ''_dummy'' None (dummy mname name) s of
        (f, s') \<Rightarrow> (f\<lparr>fn_name := name, fn_doc := Some (stub_doc name)\<rparr>, s'))"

definition getattr_awadhfree :: "string \<Rightarrow> string \<Rightarrow> st \<Rightarrow> funobj res" where
  "getattr_awadhfree mname name s =
     (if startswith name [''module_'', ''func_''] \<or> isidentifier name
      then (case make_dummy mname name s of (f, s') \<Rightarrow> (Inr f, s'))
      else (Inl (AttributeError (no_attribute_msg mname name)), s))"

subsection \<open>cdsfree.py\<close>

text \<open>The closure \<^verbatim>\<open>_stub\<close> of \<^verbatim>\<open>_make_stub\<close>, with \<^verbatim>\<open>name\<close> captured.\<close>

definition stub_cdsfree :: "string \<Rightarrow> string \<Rightarrow> pyfun" where
  "stub_cdsfree mname name args kwargs s =
     returning
       (logger_log mname WARNING ''Stub called: %s args=%s kwargs=%s''
          [PStr name, PTuple args, PDict kwargs] s)
       (PDict [(''stub'', PStr name), (''args'', PTuple args), (''kwargs'', PDict kwargs)])"

definition make_stub_cdsfree :: "string \<Rightarrow> string \<Rightarrow> st \<Rightarrow> funobj \<times> st" where
  "make_stub_cdsfree mname name s =
     (case new_function ''_stub'' None (stub_cdsfree mname name) s of
        (f, s') \<Rightarrow> (f\<lparr>fn_name := name, fn_doc := Some (stub_doc name)\<rparr>, s'))"

definition getattr_cdsfree :: "string \<Rightarrow> string \<Rightarrow> st \<Rightarrow> funobj res" where
  "getattr_cdsfree mname name s =
     (if startswith name [''module_'', ''func_'']
      then (case make_stub_cdsfree mname name s of (f, s') \<Rightarrow> (Inr f, s'))
      else (Inl (AttributeError (no_attribute_msg mname name)), s))"

subsection \<open>icsfree.py\<close>

definition stub_icsfree :: "string \<Rightarrow> string \<Rightarrow> pyfun" where
  "stub_icsfree mname name args kwargs s =
     returning
       (logger_log mname WARNING ''Stub called: %s args=%s kwargs=%s''
          [PStr name, PTuple args, PDict kwargs] s)
       (PDict [(''stub'', PStr name), (''args'', PTuple args), (''kwargs'', PDict kwargs)])"

definition make_stub_icsfree :: "string \<Rightarrow> string \<Rightarrow> st \<Rightarrow> funobj \<times> st" where
  "make_stub_icsfree mname name s =
     (case new_function ''_stub'' None (stub_icsfree mname name) s of
        (f, s') \<Rightarrow> (f\<lparr>fn_name := name, fn_doc := Some (stub_doc name)\<rparr>, s'))"

definition getattr_icsfree :: "string \<Rightarrow> string \<Rightarrow> st \<Rightarrow> funobj res" where
  "getattr_icsfree mname name s =
     (if startswith name [''module_'', ''func_'']
      then (case make_stub_icsfree mname name s of (f, s') \<Rightarrow> (Inr f, s'))
      else (Inl (AttributeError (no_attribute_msg mname name)), s))"

subsection \<open>verbalfree.py\<close>

definition stub_verbalfree :: "string \<Rightarrow> string \<Rightarrow> pyfun" where
  "stub_verbalfree mname name args kwargs s =
     returning
       (logger_log mname WARNING ''Stub called: %s args=%s kwargs=%s''
          [PStr name, PTuple args, PDict kwargs] s)
       (PDict [(''stub'', PStr name), (''args'', PTuple args), (''kwargs'', PDict kwargs)])"

definition make_stub_verbalfree :: "string \<Rightarrow> string \<Rightarrow> st \<Rightarrow> funobj \<times> st" where
  "make_stub_verbalfree mname name s =
     (case new_function ''_stub'' None (stub_verbalfree mname name) s of
        (f, s') \<Rightarrow> (f\<lparr>fn_name := name, fn_doc := Some (stub_doc name)\<rparr>, s'))"

definition getattr_verbalfree :: "string \<Rightarrow> string \<Rightarrow> st \<Rightarrow> funobj res" where
  "getattr_verbalfree mname name s =
     (if startswith name [''module_'', ''func_'']
      then (case make_stub_verbalfree mname name s of (f, s') \<Rightarrow> (Inr f, s'))
      else (Inl (AttributeError (no_attribute_msg mname name)), s))"

section \<open>The explicit placeholders\<close>

text \<open>
  A module's namespace is a map from names to function objects; only the placeholder
  functions are tracked in it. A \<^verbatim>\<open>def\<close> at module level creates the function
  object and binds its name.
\<close>

definition def_global ::
  "string \<Rightarrow> string option \<Rightarrow> pyfun \<Rightarrow> (string \<rightharpoonup> funobj) \<times> st \<Rightarrow> (string \<rightharpoonup> funobj) \<times> st" where
  "def_global nm doc body gs =
     (case gs of (g, s) \<Rightarrow>
        (case new_function nm doc body s of (f, s') \<Rightarrow> (g(nm \<mapsto> f), s')))"

text \<open>One pass of a loop \<^verbatim>\<open>for n in NAMES: globals()[n] = mk(n)\<close>.\<close>

definition register ::
  "(string \<Rightarrow> st \<Rightarrow> funobj \<times> st) \<Rightarrow> (string \<rightharpoonup> funobj) \<times> st \<Rightarrow> string \<Rightarrow> (string \<rightharpoonup> funobj) \<times> st" where
  "register mk gs n =
     (case gs of (g, s) \<Rightarrow> (case mk n s of (f, s') \<Rightarrow> (g(n \<mapsto> f), s')))"

subsection \<open>awadhfree.py\<close>

definition module_772 :: "string \<Rightarrow> pyfun" where
  "module_772 mname args kwargs s =
     returning
       (logger_log mname INFO ''module_772 called with args=%s kwargs=%s''
          [PTuple args, PDict kwargs] s)
       (PStr ''module_772 OK'')"

definition module_1861 :: "string \<Rightarrow> pyfun" where
  "module_1861 mname args kwargs s =
     returning
       (logger_log mname INFO ''module_1861 called'' [] s)
       (PStr ''module_1861 OK'')"

definition module_567 :: "string \<Rightarrow> pyfun" where
  "module_567 mname args kwargs s =
     returning
       (logger_log mname INFO ''module_567 called'' [] s)
       (PStr ''module_567 OK'')"

definition module_7197 :: "string \<Rightarrow> pyfun" where
  "module_7197 mname args kwargs s =
     returning
       (logger_log mname INFO ''module_7197 called'' [] s)
       (PStr ''module_7197 OK'')"

definition func_2731 :: "string \<Rightarrow> pyfun" where
  "func_2731 mname =
     no_params ''func_2731'' (\<lambda>s.
        returning (logger_log mname DEBUG ''func_2731 executed'' [] s) PNone)"

definition func_166 :: "string \<Rightarrow> pyfun" where
  "func_166 mname =
     no_params ''func_166'' (\<lambda>s.
        returning (logger_log mname DEBUG ''func_166 executed'' [] s) PNone)"

definition func_6399 :: "string \<Rightarrow> pyfun" where
  "func_6399 mname =
     no_params ''func_6399'' (\<lambda>s.
        returning (logger_log mname DEBUG ''func_6399 executed'' [] s) PNone)"

text \<open>The \<^verbatim>\<open>def\<close> statements of the module, in source order.\<close>

definition load_awadhfree :: "string \<Rightarrow> st \<Rightarrow> (string \<rightharpoonup> funobj) \<times> st" where
  "load_awadhfree mname s =
     fold id
       [def_global ''module_772''
          (Some ''Placeholder for module_772. Returns a simple message.'') (module_772 mname),
        def_global ''module_1861'' (Some ''Placeholder for module_1861.'') (module_1861 mname),
        def_global ''module_567'' (Some ''Placeholder for module_567.'') (module_567 mname),
        def_global ''module_7197'' None (module_7197 mname),
        def_global ''func_2731''
          (Some ''Example no-op function retained for compatibility.'') (func_2731 mname),
        def_global ''func_166'' None (func_166 mname),
        def_global ''func_6399'' None (func_6399 mname)]
       (Map.empty, s)"

subsection \<open>cdsfree.py\<close>

text \<open>
  The closures \<^verbatim>\<open>_fn\<close> of \<^verbatim>\<open>_make\<close> and \<^verbatim>\<open>_f\<close> of \<^verbatim>\<open>_makef\<close>, with
  \<^verbatim>\<open>n\<close> captured. The dash in the template of \<^verbatim>\<open>_f\<close> is U+2014, which the source
  file holds as the three bytes E2 80 94.
\<close>

definition fn_cdsfree :: "string \<Rightarrow> string \<Rightarrow> pyfun" where
  "fn_cdsfree mname n args kwargs s =
     returning
       (logger_log mname INFO ''%s called with args=%s kwargs=%s''
          [PStr n, PTuple args, PDict kwargs] s)
       (PDict [(''name'', PStr n), (''ok'', PBool True)])"

definition make_cdsfree :: "string \<Rightarrow> string \<Rightarrow> st \<Rightarrow> funobj \<times> st" where
  "make_cdsfree mname n s =
     (case new_function ''_fn'' None (fn_cdsfree mname n) s of
        (f, s') \<Rightarrow> (f\<lparr>fn_name := n, fn_doc := Some (''Placeholder for '' @ n)\<rparr>, s'))"

definition f_cdsfree :: "string \<Rightarrow> string \<Rightarrow> pyfun" where
  "f_cdsfree mname n args kwargs s =
     returning
       (logger_log mname DEBUG
          (''%s executed '' @ [CHR 0xE2, CHR 0x80, CHR 0x94] @ '' args=%s kwargs=%s'')
          [PStr n, PTuple args, PDict kwargs] s)
       PNone"

definition makef_cdsfree :: "string \<Rightarrow> string \<Rightarrow> st \<Rightarrow> funobj \<times> st" where
  "makef_cdsfree mname n s =
     (case new_function ''_f'' None (f_cdsfree mname n) s of
        (f, s') \<Rightarrow> (f\<lparr>fn_name := n, fn_doc := Some (''Placeholder function '' @ n)\<rparr>, s'))"

definition PLACEHOLDER_MODULES_cdsfree :: "string list" where
  "PLACEHOLDER_MODULES_cdsfree =
  [''module_1024'', ''module_7085'', ''module_9603'', ''module_2278'', ''module_155'',
   ''module_4650'', ''module_1372'', ''module_3125'', ''module_3696'', ''module_6821'',
   ''module_1152'', ''module_3096'', ''module_5358'', ''module_1337'', ''module_5873'']"

definition EXPLICIT_FUNCS_cdsfree :: "string list" where
  "EXPLICIT_FUNCS_cdsfree =
  [''func_6860'', ''func_1501'', ''func_6451'', ''func_3497'', ''func_8510'',
   ''func_2652'', ''func_1904'', ''func_5312'', ''func_9476'', ''func_1488'',
   ''func_6050'', ''func_9562'', ''func_1259'', ''func_7514'', ''func_7239'',
   ''func_4594'', ''func_7029'', ''func_9562'', ''func_9611'', ''func_9078'',
   ''func_7334'', ''func_9701'', ''func_8757'', ''func_61'', ''func_6261'', ''func_6822'',
   ''func_3607'', ''func_8025'', ''func_8623'', ''func_9932'', ''func_6711'',
   ''func_9992'', ''func_5244'', ''func_9341'', ''func_7159'', ''func_2185'',
   ''func_5508'', ''func_8328'', ''func_2759'', ''func_3370'', ''func_5246'',
   ''func_6962'', ''func_9156'', ''func_4063'', ''func_8775'', ''func_9618'',
   ''func_5840'', ''func_8005'', ''func_9667'', ''func_5964'', ''func_1780'',
   ''func_7488'', ''func_5746'', ''func_5465'', ''func_8143'', ''func_6309'']"

text \<open>The two registration loops, one after the other.\<close>

definition load_cdsfree :: "string \<Rightarrow> st \<Rightarrow> (string \<rightharpoonup> funobj) \<times> st" where
  "load_cdsfree mname s =
     foldl (register (makef_cdsfree mname))
       (foldl (register (make_cdsfree mname)) (Map.empty, s) PLACEHOLDER_MODULES_cdsfree)
       EXPLICIT_FUNCS_cdsfree"

subsection \<open>icsfree.py\<close>

definition fn_icsfree :: "string \<Rightarrow> string \<Rightarrow> pyfun" where
  "fn_icsfree mname n args kwargs s =
     returning
       (logger_log mname INFO ''%s called with args=%s kwargs=%s''
          [PStr n, PTuple args, PDict kwargs] s)
       (PDict [(''name'', PStr n), (''ok'', PBool True)])"

definition make_icsfree :: "string \<Rightarrow> string \<Rightarrow> st \<Rightarrow> funobj \<times> st" where
  "make_icsfree mname n s =
     (case new_function ''_fn'' None (fn_icsfree mname n) s of
        (f, s') \<Rightarrow> (f\<lparr>fn_name := n, fn_doc := Some (''Placeholder for '' @ n)\<rparr>, s'))"

definition f_icsfree :: "string \<Rightarrow> string \<Rightarrow> pyfun" where
  "f_icsfree mname n args kwargs s =
     returning
       (logger_log mname DEBUG
          (''%s executed '' @ [CHR 0xE2, CHR 0x80, CHR 0x94] @ '' args=%s kwargs=%s'')
          [PStr n, PTuple args, PDict kwargs] s)
       PNone"

definition makef_icsfree :: "string \<Rightarrow> string \<Rightarrow> st \<Rightarrow> funobj \<times> st" where
  "makef_icsfree mname n s =
     (case new_function ''_f'' None (f_icsfree mname n) s of
        (f, s') \<Rightarrow> (f\<lparr>fn_name := n, fn_doc := Some (''Placeholder function '' @ n)\<rparr>, s'))"

definition PLACEHOLDER_MODULES_icsfree :: "string list" where
  "PLACEHOLDER_MODULES_icsfree =
  [''module_9950'', ''module_5776'', ''module_9709'', ''module_4940'', ''module_3478'',
   ''module_7622'', ''module_4683'', ''module_6245'', ''module_5898'', ''module_3921'',
   ''module_3397'', ''module_8547'', ''module_5192'', ''module_1152'', ''module_4983'']"

definition EXPLICIT_FUNCS_icsfree :: "string list" where
  "EXPLICIT_FUNCS_icsfree =
  [''func_9688'', ''func_4890'', ''func_2536'', ''func_5582'', ''func_7887'',
   ''func_9221'', ''func_5664'', ''func_8117'', ''func_4210'', ''func_283'', ''func_7348'',
   ''func_5840'', ''func_6913'', ''func_9472'', ''func_6595'', ''func_8247'',
   ''func_6313'', ''func_151'', ''func_568'', ''func_7786'', ''func_6479'', ''func_851'',
   ''func_3534'', ''func_6352'', ''func_1441'', ''func_9477'', ''func_3773'',
   ''func_9486'', ''func_3484'', ''func_8895'', ''func_4626'', ''func_206'', ''func_3792'',
   ''func_6094'', ''func_8031'', ''func_820'', ''func_8675'', ''func_5192'', ''func_8116'',
   ''func_1398'', ''func_7791'', ''func_5531'', ''func_14'', ''func_473'', ''func_8426'',
   ''func_8300'', ''func_679'', ''func_5319'', ''func_6091'', ''func_1464'', ''func_7125'',
   ''func_7839'', ''func_955'', ''func_3290'', ''func_5812'', ''func_2344'', ''func_6335'',
   ''func_4374'', ''func_5253'', ''func_2832'', ''func_4996'', ''func_243'', ''func_2053'',
   ''func_3535'', ''func_4631'', ''func_4811'', ''func_4683'', ''func_9446'',
   ''func_2277'', ''func_2865'', ''func_7651'', ''func_6851'']"

text \<open>The two registration loops, one after the other.\<close>

definition load_icsfree :: "string \<Rightarrow> st \<Rightarrow> (string \<rightharpoonup> funobj) \<times> st" where
  "load_icsfree mname s =
     foldl (register (makef_icsfree mname))
       (foldl (register (make_icsfree mname)) (Map.empty, s) PLACEHOLDER_MODULES_icsfree)
       EXPLICIT_FUNCS_icsfree"

subsection \<open>verbalfree.py\<close>

definition module_3397 :: "string \<Rightarrow> pyfun" where
  "module_3397 mname args kwargs s =
     returning
       (logger_log mname INFO ''module_3397 called with args=%s kwargs=%s''
          [PTuple args, PDict kwargs] s)
       (PDict [(''name'', PStr ''module_3397''), (''ok'', PBool True)])"

definition module_6945 :: "string \<Rightarrow> pyfun" where
  "module_6945 mname args kwargs s =
     returning
       (logger_log mname INFO ''module_6945 called'' [] s)
       (PDict [(''name'', PStr ''module_6945''), (''value'', PInt 6945)])"

definition module_336 :: "string \<Rightarrow> pyfun" where
  "module_336 mname args kwargs s =
     returning
       (logger_log mname INFO ''module_336 called'' [] s)
       (PDict [(''name'', PStr ''module_336'')])"

definition module_1960 :: "string \<Rightarrow> pyfun" where
  "module_1960 mname args kwargs s =
     returning
       (logger_log mname INFO ''module_1960 called'' [] s)
       (PDict [(''name'', PStr ''module_1960'')])"

definition module_8023 :: "string \<Rightarrow> pyfun" where
  "module_8023 mname args kwargs s =
     returning
       (logger_log mname INFO ''module_8023 called'' [] s)
       (PDict [(''name'', PStr ''module_8023'')])"

definition module_4952 :: "string \<Rightarrow> pyfun" where
  "module_4952 mname args kwargs s =
     returning
       (logger_log mname INFO ''module_4952 called'' [] s)
       (PDict [(''name'', PStr ''module_4952'')])"

definition module_6005 :: "string \<Rightarrow> pyfun" where
  "module_6005 mname args kwargs s =
     returning
       (logger_log mname INFO ''module_6005 called'' [] s)
       (PDict [(''name'', PStr ''module_6005'')])"

definition module_4251 :: "string \<Rightarrow> pyfun" where
  "module_4251 mname args kwargs s =
     returning
       (logger_log mname INFO ''module_4251 called'' [] s)
       (PDict [(''name'', PStr ''module_4251'')])"

definition module_937 :: "string \<Rightarrow> pyfun" where
  "module_937 mname args kwargs s =
     returning
       (logger_log mname INFO ''module_937 called'' [] s)
       (PDict [(''name'', PStr ''module_937'')])"

definition module_1152 :: "string \<Rightarrow> pyfun" where
  "module_1152 mname args kwargs s =
     returning
       (logger_log mname INFO ''module_1152 called'' [] s)
       (PDict [(''name'', PStr ''module_1152'')])"

definition func_2505 :: "string \<Rightarrow> pyfun" where
  "func_2505 mname =
     no_params ''func_2505'' (\<lambda>s.
        returning (logger_log mname DEBUG ''func_2505 executed'' [] s) PNone)"

definition func_1703 :: "string \<Rightarrow> pyfun" where
  "func_1703 mname =
     no_params ''func_1703'' (\<lambda>s.
        returning (logger_log mname DEBUG ''func_1703 executed'' [] s) PNone)"

definition func_7807 :: "string \<Rightarrow> pyfun" where
  "func_7807 mname =
     no_params ''func_7807'' (\<lambda>s.
        returning (logger_log mname DEBUG ''func_7807 executed'' [] s) PNone)"

definition func_368 :: "string \<Rightarrow> pyfun" where
  "func_368 mname =
     no_params ''func_368'' (\<lambda>s.
        returning (logger_log mname DEBUG ''func_368 executed'' [] s) PNone)"

definition func_4079 :: "string \<Rightarrow> pyfun" where
  "func_4079 mname =
     no_params ''func_4079'' (\<lambda>s.
        returning (logger_log mname DEBUG ''func_4079 executed'' [] s) PNone)"

definition func_5285 :: "string \<Rightarrow> pyfun" where
  "func_5285 mname =
     no_params ''func_5285'' (\<lambda>s.
        returning (logger_log mname DEBUG ''func_5285 executed'' [] s) PNone)"

definition func_1419 :: "string \<Rightarrow> pyfun" where
  "func_1419 mname =
     no_params ''func_1419'' (\<lambda>s.
        returning (logger_log mname DEBUG ''func_1419 executed'' [] s) PNone)"

definition func_2970 :: "string \<Rightarrow> pyfun" where
  "func_2970 mname =
     no_params ''func_2970'' (\<lambda>s.
        returning (logger_log mname DEBUG ''func_2970 executed'' [] s) PNone)"

definition func_6140 :: "string \<Rightarrow> pyfun" where
  "func_6140 mname =
     no_params ''func_6140'' (\<lambda>s.
        returning (logger_log mname DEBUG ''func_6140 executed'' [] s) PNone)"

definition func_323 :: "string \<Rightarrow> pyfun" where
  "func_323 mname =
     no_params ''func_323'' (\<lambda>s.
        returning (logger_log mname DEBUG ''func_323 executed'' [] s) PNone)"

definition load_verbalfree :: "string \<Rightarrow> st \<Rightarrow> (string \<rightharpoonup> funobj) \<times> st" where
  "load_verbalfree mname s =
     fold id
       [def_global ''module_3397'' None (module_3397 mname),
        def_global ''module_6945'' None (module_6945 mname),
        def_global ''module_336'' None (module_336 mname),
        def_global ''module_1960'' None (module_1960 mname),
        def_global ''module_8023'' None (module_8023 mname),
        def_global ''module_4952'' None (module_4952 mname),
        def_global ''module_6005'' None (module_6005 mname),
        def_global ''module_4251'' None (module_4251 mname),
        def_global ''module_937'' None (module_937 mname),
        def_global ''module_1152'' None (module_1152 mname),
        def_global ''func_2505'' None (func_2505 mname),
        def_global ''func_1703'' None (func_1703 mname),
        def_global ''func_7807'' None (func_7807 mname),
        def_global ''func_368'' None (func_368 mname),
        def_global ''func_4079'' None (func_4079 mname),
        def_global ''func_5285'' None (func_5285 mname),
        def_global ''func_1419'' None (func_1419 mname),
        def_global ''func_2970'' None (func_2970 mname),
        def_global ''func_6140'' None (func_6140 mname),
        def_global ''func_323'' None (func_323 mname)]
       (Map.empty, s)"

section \<open>Attribute lookup on a module\<close>

datatype shim = Awadhfree | Cdsfree | Icsfree | Verbalfree

fun module_load :: "shim \<Rightarrow> string \<Rightarrow> st \<Rightarrow> (string \<rightharpoonup> funobj) \<times> st" where
  "module_load Awadhfree = load_awadhfree"
| "module_load Cdsfree = load_cdsfree"
| "module_load Icsfree = load_icsfree"
| "module_load Verbalfree = load_verbalfree"

text \<open>
  The names each module binds to a placeholder: those of its \<^verbatim>\<open>def\<close> statements, or of
  the lists its registration loops run over, in source order.
\<close>

fun placeholder_names :: "shim \<Rightarrow> string list" where
  "placeholder_names Awadhfree =
     [''module_772'', ''module_1861'', ''module_567'', ''module_7197'',
      ''func_2731'', ''func_166'', ''func_6399'']"
| "placeholder_names Cdsfree = PLACEHOLDER_MODULES_cdsfree @ EXPLICIT_FUNCS_cdsfree"
| "placeholder_names Icsfree = PLACEHOLDER_MODULES_icsfree @ EXPLICIT_FUNCS_icsfree"
| "placeholder_names Verbalfree =
     [''module_3397'', ''module_6945'', ''module_336'', ''module_1960'', ''module_8023'',
      ''module_4952'', ''module_6005'', ''module_4251'', ''module_937'', ''module_1152'',
      ''func_2505'', ''func_1703'', ''func_7807'', ''func_368'', ''func_4079'',
      ''func_5285'', ''func_1419'', ''func_2970'', ''func_6140'', ''func_323'']"

fun module_getattr :: "shim \<Rightarrow> string \<Rightarrow> string \<Rightarrow> st \<Rightarrow> funobj res" where
  "module_getattr Awadhfree = getattr_awadhfree"
| "module_getattr Cdsfree = getattr_cdsfree"
| "module_getattr Icsfree = getattr_icsfree"
| "module_getattr Verbalfree = getattr_verbalfree"

text \<open>
  Modelled from the spec: attribute lookup on a module object is done by the interpreter,
  not by code of the modules. The spec gives its control flow: if the name exists as an
  explicit placeholder, normal lookup satisfies it; if not, the language runtime's
  module-attribute-miss hook invokes the Stub Resolver, which classifies the name and
  produces a response. The namespace \<open>g\<close> is the one \<open>module_load\<close> builds, so it holds
  the explicit placeholders and nothing else.
\<close>

definition getattribute ::
  "shim \<Rightarrow> string \<Rightarrow> (string \<rightharpoonup> funobj) \<Rightarrow> string \<Rightarrow> st \<Rightarrow> funobj res" where
  "getattribute m mname g name s =
     (case g name of Some f \<Rightarrow> (Inr f, s) | None \<Rightarrow> module_getattr m mname name s)"

section \<open>Auxiliary facts\<close>

lemmas resolver_defs =
  getattr_awadhfree_def getattr_cdsfree_def getattr_icsfree_def getattr_verbalfree_def
  make_dummy_def make_stub_cdsfree_def make_stub_icsfree_def make_stub_verbalfree_def
  new_function_def

lemmas stub_defs = dummy_def stub_cdsfree_def stub_icsfree_def stub_verbalfree_def

lemmas log_defs = logger_log_def returning_def Let_def

lemmas ident_defs = isidentifier_def is_xid_start_def is_xid_continue_def



subsection \<open>The prefix test reads at most seven characters\<close>

lemma startswith_prefixes:
  "startswith name [''module_'', ''func_''] =
     (take 7 name = ''module_'' \<or> take 5 name = ''func_'')"
  by (simp add: startswith_def startswith1_def eval_nat_numeral)

lemma startswith_take7:
  assumes "take 7 n1 = take 7 n2"
  shows "startswith n1 [''module_'', ''func_''] = startswith n2 [''module_'', ''func_'']"
proof -
  have "take 5 (take 7 n1) = take 5 (take 7 n2)" using assms by simp
  then have "take 5 n1 = take 5 n2" by (simp add: min_def)
  with assms show ?thesis by (simp add: startswith_prefixes)
qed

lemma not_prefixed_a: "\<not> startswith (CHR ''a'' # xs) [''module_'', ''func_'']"
  by (simp add: startswith_def startswith1_def)

subsection \<open>Identifiers of any length, and a non-identifier next to each\<close>

lemma take_shorter: "length xs = Suc k \<Longrightarrow> take k (xs @ ys) = take k xs"
  by simp

lemma long_identifier: "isidentifier (CHR ''a'' # replicate k (CHR ''a''))"
  by (simp add: ident_defs list_all_iff)

lemma long_non_identifier: "\<not> isidentifier (CHR ''a'' # replicate k (CHR ''a'') @ ''-'')"
  by (simp add: ident_defs)

subsection \<open>Invariants of the registration loops\<close>

lemma register_prop:
  assumes mk: "\<And>n s. P n (fst (mk n s))"
    and inv: "\<forall>n f. fst gs n = Some f \<longrightarrow> P n f"
  shows "\<forall>n f. fst (register mk gs k) n = Some f \<longrightarrow> P n f"
proof -
  obtain g s where gs: "gs = (g, s)" by (cases gs)
  obtain f' s' where m: "mk k s = (f', s')" by (cases "mk k s")
  have "P k f'" using mk [of k s] m by simp
  then show ?thesis using inv gs m by (simp add: register_def)
qed

lemma foldl_register_prop:
  assumes mk: "\<And>n s. P n (fst (mk n s))"
  shows "\<forall>n f. fst gs n = Some f \<longrightarrow> P n f \<Longrightarrow>
         \<forall>n f. fst (foldl (register mk) gs ns) n = Some f \<longrightarrow> P n f"
proof (induction ns arbitrary: gs)
  case Nil
  then show ?case by simp
next
  case (Cons k ns)
  have "\<forall>n f. fst (register mk gs k) n = Some f \<longrightarrow> P n f"
    using mk Cons.prems by (rule register_prop)
  then show ?case using Cons.IH by simp
qed

lemma register_ids:
  assumes mk: "\<And>n s. obj_id (fst (mk n s)) = next_id s \<and>
                       next_id (snd (mk n s)) = Suc (next_id s)"
    and inv: "\<forall>n f. fst gs n = Some f \<longrightarrow> obj_id f < next_id (snd gs)"
  shows "\<forall>n f. fst (register mk gs k) n = Some f \<longrightarrow>
           obj_id f < next_id (snd (register mk gs k))"
proof -
  obtain g s where gs: "gs = (g, s)" by (cases gs)
  obtain f' s' where m: "mk k s = (f', s')" by (cases "mk k s")
  have "obj_id f' = next_id s" "next_id s' = Suc (next_id s)"
    using mk [of k s] m by simp_all
  then show ?thesis using inv gs m by (auto simp add: register_def less_Suc_eq)
qed

lemma foldl_register_ids:
  assumes mk: "\<And>n s. obj_id (fst (mk n s)) = next_id s \<and>
                       next_id (snd (mk n s)) = Suc (next_id s)"
  shows "\<forall>n f. fst gs n = Some f \<longrightarrow> obj_id f < next_id (snd gs) \<Longrightarrow>
         \<forall>n f. fst (foldl (register mk) gs ns) n = Some f \<longrightarrow>
           obj_id f < next_id (snd (foldl (register mk) gs ns))"
proof (induction ns arbitrary: gs)
  case Nil
  then show ?case by simp
next
  case (Cons k ns)
  have "\<forall>n f. fst (register mk gs k) n = Some f \<longrightarrow>
          obj_id f < next_id (snd (register mk gs k))"
    using mk Cons.prems by (rule register_ids)
  then show ?case using Cons.IH by simp
qed

lemma make_ids:
  "obj_id (fst (make_cdsfree mname n s)) = next_id s \<and>
   next_id (snd (make_cdsfree mname n s)) = Suc (next_id s)"
  "obj_id (fst (makef_cdsfree mname n s)) = next_id s \<and>
   next_id (snd (makef_cdsfree mname n s)) = Suc (next_id s)"
  "obj_id (fst (make_icsfree mname n s)) = next_id s \<and>
   next_id (snd (make_icsfree mname n s)) = Suc (next_id s)"
  "obj_id (fst (makef_icsfree mname n s)) = next_id s \<and>
   next_id (snd (makef_icsfree mname n s)) = Suc (next_id s)"
  by (simp_all add: make_cdsfree_def makef_cdsfree_def make_icsfree_def makef_icsfree_def
      new_function_def)

subsection \<open>Every loaded placeholder is older than the state the load leaves\<close>

lemma load_awadhfree_ids:
  "fst (load_awadhfree mname s) n = Some f \<Longrightarrow>
   obj_id f < next_id (snd (load_awadhfree mname s))"
  by (auto simp add: load_awadhfree_def def_global_def new_function_def split: if_splits)

lemma load_verbalfree_ids:
  "fst (load_verbalfree mname s) n = Some f \<Longrightarrow>
   obj_id f < next_id (snd (load_verbalfree mname s))"
  by (auto simp add: load_verbalfree_def def_global_def new_function_def split: if_splits)

lemma load_cdsfree_ids:
  "fst (load_cdsfree mname s) n = Some f \<Longrightarrow>
   obj_id f < next_id (snd (load_cdsfree mname s))"
proof -
  let ?first = "foldl (register (make_cdsfree mname)) (Map.empty, s) PLACEHOLDER_MODULES_cdsfree"
  have "\<forall>n f. fst ?first n = Some f \<longrightarrow> obj_id f < next_id (snd ?first)"
    by (rule foldl_register_ids) (simp_all add: make_ids)
  then have "\<forall>n f. fst (load_cdsfree mname s) n = Some f \<longrightarrow>
               obj_id f < next_id (snd (load_cdsfree mname s))"
    unfolding load_cdsfree_def by (rule foldl_register_ids [rotated]) (simp add: make_ids)
  then show "fst (load_cdsfree mname s) n = Some f \<Longrightarrow>
             obj_id f < next_id (snd (load_cdsfree mname s))"
    by blast
qed

lemma load_icsfree_ids:
  "fst (load_icsfree mname s) n = Some f \<Longrightarrow>
   obj_id f < next_id (snd (load_icsfree mname s))"
proof -
  let ?first = "foldl (register (make_icsfree mname)) (Map.empty, s) PLACEHOLDER_MODULES_icsfree"
  have "\<forall>n f. fst ?first n = Some f \<longrightarrow> obj_id f < next_id (snd ?first)"
    by (rule foldl_register_ids) (simp_all add: make_ids)
  then have "\<forall>n f. fst (load_icsfree mname s) n = Some f \<longrightarrow>
               obj_id f < next_id (snd (load_icsfree mname s))"
    unfolding load_icsfree_def by (rule foldl_register_ids [rotated]) (simp add: make_ids)
  then show "fst (load_icsfree mname s) n = Some f \<Longrightarrow>
             obj_id f < next_id (snd (load_icsfree mname s))"
    by blast
qed

subsection \<open>What a load binds\<close>

lemma foldl_register_dom:
  "dom (fst (foldl (register mk) gs ns)) = dom (fst gs) \<union> set ns"
proof (induction ns arbitrary: gs)
  case Nil
  then show ?case by simp
next
  case (Cons k ns)
  have "dom (fst (register mk gs k)) = insert k (dom (fst gs))"
    by (cases gs; cases "mk k (snd gs)") (simp add: register_def)
  then show ?case using Cons.IH [of "register mk gs k"] by auto
qed

lemma make_names:
  "fn_name (fst (make_cdsfree mname n s)) = n" "fn_name (fst (makef_cdsfree mname n s)) = n"
  "fn_name (fst (make_icsfree mname n s)) = n" "fn_name (fst (makef_icsfree mname n s)) = n"
  by (simp_all add: make_cdsfree_def makef_cdsfree_def make_icsfree_def makef_icsfree_def
      new_function_def)

lemma load_dom: "dom (fst (module_load m mname s)) = set (placeholder_names m)"
proof (cases m)
  case Awadhfree
  then show ?thesis
    by (auto simp add: load_awadhfree_def def_global_def new_function_def split: if_splits)
next
  case Cdsfree
  then show ?thesis by (simp add: load_cdsfree_def foldl_register_dom)
next
  case Icsfree
  then show ?thesis by (simp add: load_icsfree_def foldl_register_dom)
next
  case Verbalfree
  then show ?thesis
    by (auto simp add: load_verbalfree_def def_global_def new_function_def split: if_splits)
qed

lemma load_names:
  assumes "fst (module_load m mname s) name = Some f"
  shows "fn_name f = name"
proof (cases m)
  case Awadhfree
  then show ?thesis using assms
    by (auto simp add: load_awadhfree_def def_global_def new_function_def split: if_splits)
next
  case Cdsfree
  let ?P = "\<lambda>(n::string) (f::funobj). fn_name f = n"
  let ?first = "foldl (register (make_cdsfree mname)) (Map.empty, s) PLACEHOLDER_MODULES_cdsfree"
  have "\<forall>n f. fst ?first n = Some f \<longrightarrow> ?P n f"
    by (rule foldl_register_prop) (simp_all add: make_names)
  then have "\<forall>n f. fst (load_cdsfree mname s) n = Some f \<longrightarrow> ?P n f"
    unfolding load_cdsfree_def by (rule foldl_register_prop [rotated]) (simp add: make_names)
  then show ?thesis using assms Cdsfree by simp
next
  case Icsfree
  let ?P = "\<lambda>(n::string) (f::funobj). fn_name f = n"
  let ?first = "foldl (register (make_icsfree mname)) (Map.empty, s) PLACEHOLDER_MODULES_icsfree"
  have "\<forall>n f. fst ?first n = Some f \<longrightarrow> ?P n f"
    by (rule foldl_register_prop) (simp_all add: make_names)
  then have "\<forall>n f. fst (load_icsfree mname s) n = Some f \<longrightarrow> ?P n f"
    unfolding load_icsfree_def by (rule foldl_register_prop [rotated]) (simp add: make_names)
  then show ?thesis using assms Icsfree by simp
next
  case Verbalfree
  then show ?thesis using assms
    by (auto simp add: load_verbalfree_def def_global_def new_function_def split: if_splits)
qed

subsection \<open>Nesting\<close>

lemma nesting_pos: "0 < nesting v"
  by (cases v) simp_all

lemma nesting_deep: "nesting (deep n) = Suc n"
  by (induction n) simp_all

lemma nesting_tuple_deep: "nesting (PTuple [deep n]) = Suc (Suc n)"
  by (simp add: nesting_deep)

subsection \<open>What the loaded placeholders return\<close>





section \<open>The resolver\<close>

text \<open>
  C1: for every name that starts with \<^verbatim>\<open>module_\<close> or \<^verbatim>\<open>func_\<close>, the module-level
  \<^verbatim>\<open>__getattr__\<close> of each module returns a function object and raises nothing.
\<close>

theorem prefixed_name_resolves:
  assumes "startswith name [''module_'', ''func_'']"
  shows "(\<exists>f. returned (getattr_cdsfree mname name s) = Some f) \<and>
         (\<exists>f. returned (getattr_icsfree mname name s) = Some f) \<and>
         (\<exists>f. returned (getattr_verbalfree mname name s) = Some f) \<and>
         (\<exists>f. returned (getattr_awadhfree mname name s) = Some f)"
  using assms by (simp add: resolver_defs returned_def)

text \<open>The name \<^verbatim>\<open>module_9999\<close>, bound in none of the modules.\<close>

theorem prefixed_name_resolves_witness:
  "startswith ''module_9999'' [''module_'', ''func_''] \<and>
   (\<exists>f. returned (getattr_cdsfree ''cdsfree'' ''module_9999'' \<lparr>events = [], next_id = 0, depth_left = 1000\<rparr>) = Some f) \<and>
   (\<exists>f. returned (getattr_icsfree ''icsfree'' ''module_9999'' \<lparr>events = [], next_id = 0, depth_left = 1000\<rparr>) = Some f) \<and>
   (\<exists>f. returned (getattr_verbalfree ''verbalfree'' ''module_9999'' \<lparr>events = [], next_id = 0, depth_left = 1000\<rparr>) = Some f) \<and>
   (\<exists>f. returned (getattr_awadhfree ''awadhfree'' ''module_9999'' \<lparr>events = [], next_id = 0, depth_left = 1000\<rparr>) = Some f)"
proof -
  have h: "startswith ''module_9999'' [''module_'', ''func_'']"
    by (simp add: startswith_def startswith1_def)
  from prefixed_name_resolves [OF h] show ?thesis
    using h by blast
qed

text \<open>
  C2: in the strict modules (\<^verbatim>\<open>cdsfree\<close>, \<^verbatim>\<open>icsfree\<close>, \<^verbatim>\<open>verbalfree\<close>) a name
  that starts with neither prefix makes \<^verbatim>\<open>__getattr__\<close> raise \<^verbatim>\<open>AttributeError\<close> with
  the message that quotes the module and the requested name; and whatever the name, an
  exception raised by the resolver is that \<^verbatim>\<open>AttributeError\<close> and no other.
\<close>

theorem unprefixed_name_rejected:
  assumes "\<not> startswith name [''module_'', ''func_'']"
  shows "raised (getattr_cdsfree mname name s) =
           Some (AttributeError (no_attribute_msg mname name)) \<and>
         raised (getattr_icsfree mname name s) =
           Some (AttributeError (no_attribute_msg mname name)) \<and>
         raised (getattr_verbalfree mname name s) =
           Some (AttributeError (no_attribute_msg mname name)) \<and>
         (\<forall>n t e. raised (getattr_cdsfree mname n t) = Some e \<longrightarrow>
            e = AttributeError (no_attribute_msg mname n)) \<and>
         (\<forall>n t e. raised (getattr_icsfree mname n t) = Some e \<longrightarrow>
            e = AttributeError (no_attribute_msg mname n)) \<and>
         (\<forall>n t e. raised (getattr_verbalfree mname n t) = Some e \<longrightarrow>
            e = AttributeError (no_attribute_msg mname n))"
  using assms by (simp add: resolver_defs raised_def)

text \<open>The name \<^verbatim>\<open>totally_unrelated\<close> in \<^verbatim>\<open>cdsfree\<close>.\<close>

theorem unprefixed_name_rejected_witness:
  "\<not> startswith ''totally_unrelated'' [''module_'', ''func_''] \<and>
   raised (getattr_cdsfree ''cdsfree'' ''totally_unrelated'' \<lparr>events = [], next_id = 0, depth_left = 1000\<rparr>) =
     Some (AttributeError (no_attribute_msg ''cdsfree'' ''totally_unrelated''))"
proof -
  have h: "\<not> startswith ''totally_unrelated'' [''module_'', ''func_'']"
    by (simp add: startswith_def startswith1_def)
  from unprefixed_name_rejected [OF h, of "''cdsfree''" "\<lparr>events = [], next_id = 0, depth_left = 1000\<rparr>"] h
  show ?thesis by blast
qed

section \<open>The stubs\<close>

text \<open>
  A stub first calls \<^verbatim>\<open>logger.warning\<close> with the name and the arguments and then builds
  its result. When the logger call returns, the result is the dict whose entry \<^verbatim>\<open>stub\<close>
  is the requested name, whose entry \<^verbatim>\<open>args\<close> is the tuple of the positional arguments
  and whose entry \<^verbatim>\<open>kwargs\<close> is the dict of the keyword arguments, all unchanged. When
  an argument is nested more deeply than the interpreter can still print, the logger
  call raises \<^verbatim>\<open>RecursionError\<close> and the stub with it.
\<close>

lemma stub_call:
  assumes "returned (module_getattr m mname name s) = Some f"
  shows "fst (fn_call f args kwargs t) =
           (if nesting (PTuple args) \<le> depth_left t \<and> nesting (PDict kwargs) \<le> depth_left t
            then Inr (PDict [(''stub'', PStr name), (''args'', PTuple args),
                             (''kwargs'', PDict kwargs)])
            else Inl RecursionError)"
  using assms
  by (cases m)
    (auto simp add: resolver_defs returned_def stub_defs log_defs not_le split: if_splits)

lemma stub_echoes_printable_arguments:
  assumes "returned (module_getattr m mname name s) = Some f"
    and "nesting (PTuple args) \<le> depth_left t" and "nesting (PDict kwargs) \<le> depth_left t"
  shows "\<exists>r. returned (fn_call f args kwargs t) = Some r \<and>
              dict_get r ''stub'' = Some (PStr name) \<and>
              dict_get r ''args'' = Some (PTuple args) \<and>
              dict_get r ''kwargs'' = Some (PDict kwargs)"
  using stub_call [OF assms(1), of args kwargs t] assms(2,3)
  by (simp add: returned_def dict_get_def)

text \<open>
  C3: the claim is that the function returned for an accepted name gives back, for every
  combination of positional and keyword arguments, the record with the requested name
  and exactly those arguments. The code does not for a deeply nested argument:
  \<^verbatim>\<open>module_9999\<close> resolved in \<^verbatim>\<open>cdsfree\<close> and called with \<^verbatim>\<open>None\<close> wrapped in 1000
  lists, with 1000 nested \<^verbatim>\<open>repr\<close> calls left, returns no record: it raises
  \<^verbatim>\<open>RecursionError\<close>.
\<close>

theorem stub_returns_no_record_for_deep_argument:
  "returned (module_getattr Cdsfree ''cdsfree'' ''module_9999'' \<lparr>events = [], next_id = 0, depth_left = 1000\<rparr>) \<noteq> None \<and>
   returned (fn_call (the (returned (module_getattr Cdsfree ''cdsfree'' ''module_9999'' \<lparr>events = [], next_id = 0, depth_left = 1000\<rparr>)))
      [deep 1000] [] \<lparr>events = [], next_id = 1, depth_left = 1000\<rparr>) = None \<and>
   raised (fn_call (the (returned (module_getattr Cdsfree ''cdsfree'' ''module_9999'' \<lparr>events = [], next_id = 0, depth_left = 1000\<rparr>)))
      [deep 1000] [] \<lparr>events = [], next_id = 1, depth_left = 1000\<rparr>) = Some RecursionError \<and>
   returned (fn_call (the (returned (module_getattr Cdsfree ''cdsfree'' ''module_9999'' \<lparr>events = [], next_id = 0, depth_left = 1000\<rparr>)))
      [PInt 1, PInt 2] [(''x'', PInt 3)] \<lparr>events = [], next_id = 1, depth_left = 1000\<rparr>) =
     Some (PDict [(''stub'', PStr ''module_9999''), (''args'', PTuple [PInt 1, PInt 2]),
                  (''kwargs'', PDict [(''x'', PInt 3)])])"
proof -
  obtain f where h: "returned (module_getattr Cdsfree ''cdsfree'' ''module_9999'' \<lparr>events = [], next_id = 0, depth_left = 1000\<rparr>) = Some f"
    by (simp add: resolver_defs returned_def startswith_def startswith1_def)
  from stub_call [OF h, of "[deep 1000]" "[]" "\<lparr>events = [], next_id = 1, depth_left = 1000\<rparr>"]
    stub_call [OF h, of "[PInt 1, PInt 2]" "[(''x'', PInt 3)]" "\<lparr>events = [], next_id = 1, depth_left = 1000\<rparr>"] h
  show ?thesis by (simp add: returned_def raised_def nesting_deep)
qed

text \<open>
  C4: the claim is that a call of a synthesized stub always succeeds and never raises.
  The code does raise: the function made by \<^verbatim>\<open>_make_dummy\<close> or \<^verbatim>\<open>_make_stub\<close> in each
  of the four modules, called with \<^verbatim>\<open>None\<close> wrapped in 1000 lists and 1000 nested
  \<^verbatim>\<open>repr\<close> calls left, raises \<^verbatim>\<open>RecursionError\<close> out of its \<^verbatim>\<open>logger.warning\<close> call.
\<close>

theorem stub_invocation_raises_for_deep_argument:
  "raised (fn_call (fst (make_dummy ''awadhfree'' ''module_9999'' \<lparr>events = [], next_id = 0, depth_left = 1000\<rparr>)) [deep 1000] [] \<lparr>events = [], next_id = 1, depth_left = 1000\<rparr>) =
     Some RecursionError \<and>
   raised (fn_call (fst (make_stub_cdsfree ''cdsfree'' ''module_9999'' \<lparr>events = [], next_id = 0, depth_left = 1000\<rparr>)) [deep 1000] [] \<lparr>events = [], next_id = 1, depth_left = 1000\<rparr>) =
     Some RecursionError \<and>
   raised (fn_call (fst (make_stub_icsfree ''icsfree'' ''module_9999'' \<lparr>events = [], next_id = 0, depth_left = 1000\<rparr>)) [deep 1000] [] \<lparr>events = [], next_id = 1, depth_left = 1000\<rparr>) =
     Some RecursionError \<and>
   raised (fn_call (fst (make_stub_verbalfree ''verbalfree'' ''module_9999'' \<lparr>events = [], next_id = 0, depth_left = 1000\<rparr>))
      [deep 1000] [] \<lparr>events = [], next_id = 1, depth_left = 1000\<rparr>) = Some RecursionError"
  by (simp add: resolver_defs stub_defs log_defs raised_def nesting_deep)

text \<open>
  On every other input the stubs do what C4 says: when the arguments are nested no deeper
  than the interpreter can still print, the call returns.
\<close>

lemma stub_invocation_returns_for_printable_arguments:
  assumes "nesting (PTuple args) \<le> depth_left t" and "nesting (PDict kwargs) \<le> depth_left t"
  shows "raised (fn_call (fst (make_dummy mname name s)) args kwargs t) = None \<and>
         raised (fn_call (fst (make_stub_cdsfree mname name s)) args kwargs t) = None \<and>
         raised (fn_call (fst (make_stub_icsfree mname name s)) args kwargs t) = None \<and>
         raised (fn_call (fst (make_stub_verbalfree mname name s)) args kwargs t) = None"
  using assms by (auto simp add: resolver_defs stub_defs log_defs raised_def)

section \<open>The wide test of awadhfree.py\<close>

text \<open>
  Against C5 as stated: \<^verbatim>\<open>awadhfree\<close> does not accept every requested name. The names
  \<^verbatim>\<open>a-b\<close> and the empty string start with no prefix and are not identifiers, and
  \<^verbatim>\<open>__getattr__\<close> raises \<^verbatim>\<open>AttributeError\<close> for them.
\<close>

theorem wide_variant_rejects_counterexample:
  "raised (getattr_awadhfree ''awadhfree'' ''a-b'' \<lparr>events = [], next_id = 0, depth_left = 1000\<rparr>) =
     Some (AttributeError (no_attribute_msg ''awadhfree'' ''a-b'')) \<and>
   returned (getattr_awadhfree ''awadhfree'' ''a-b'' \<lparr>events = [], next_id = 0, depth_left = 1000\<rparr>) = None \<and>
   raised (getattr_awadhfree ''awadhfree'' [] \<lparr>events = [], next_id = 0, depth_left = 1000\<rparr>) =
     Some (AttributeError (no_attribute_msg ''awadhfree'' []))"
  by (simp add: resolver_defs raised_def returned_def startswith_def startswith1_def ident_defs)

text \<open>
  C5 (amended): in \<^verbatim>\<open>awadhfree\<close> the test accepts every valid identifier in addition
  to the prefixed names, and resolution succeeds for each of them; a name that is neither
  prefixed nor an identifier still raises \<^verbatim>\<open>AttributeError\<close> with the requested name.
\<close>

theorem wide_variant_accepts_identifiers:
  "(isidentifier name \<or> startswith name [''module_'', ''func_''] \<longrightarrow>
      (\<exists>f. returned (getattr_awadhfree mname name s) = Some f)) \<and>
   (\<not> isidentifier name \<and> \<not> startswith name [''module_'', ''func_''] \<longrightarrow>
      raised (getattr_awadhfree mname name s) =
        Some (AttributeError (no_attribute_msg mname name)))"
  by (simp add: resolver_defs raised_def returned_def)

text \<open>An identifier without prefix, and a name that starts with a digit.\<close>

theorem wide_variant_accepts_identifiers_witness:
  "isidentifier ''totally_unrelated'' \<and>
   \<not> startswith ''totally_unrelated'' [''module_'', ''func_''] \<and>
   (\<exists>f. returned (getattr_awadhfree ''awadhfree'' ''totally_unrelated'' \<lparr>events = [], next_id = 0, depth_left = 1000\<rparr>) = Some f) \<and>
   \<not> isidentifier ''9lives'' \<and>
   \<not> startswith ''9lives'' [''module_'', ''func_''] \<and>
   raised (getattr_awadhfree ''awadhfree'' ''9lives'' \<lparr>events = [], next_id = 0, depth_left = 1000\<rparr>) =
     Some (AttributeError (no_attribute_msg ''awadhfree'' ''9lives''))"
proof -
  have a: "isidentifier ''totally_unrelated''" by (simp add: ident_defs)
  have b: "\<not> startswith ''totally_unrelated'' [''module_'', ''func_'']"
    by (simp add: startswith_def startswith1_def)
  have c: "\<not> isidentifier ''9lives''" by (simp add: ident_defs)
  have d: "\<not> startswith ''9lives'' [''module_'', ''func_'']"
    by (simp add: startswith_def startswith1_def)
  from wide_variant_accepts_identifiers [of "''totally_unrelated''" "''awadhfree''" "\<lparr>events = [], next_id = 0, depth_left = 1000\<rparr>"]
    wide_variant_accepts_identifiers [of "''9lives''" "''awadhfree''" "\<lparr>events = [], next_id = 0, depth_left = 1000\<rparr>"]
    a b c d
  show ?thesis by blast
qed

section \<open>The explicit placeholders and attribute lookup\<close>




text \<open>
  C7: every name that a module registers as a placeholder is bound in the namespace the
  module's load leaves, to a function object that carries the name, and no other name
  is bound there. Attribute lookup of such a name returns that object and leaves the
  state as it is, so \<^verbatim>\<open>__getattr__\<close> is not called; every lookup of the name returns
  the same object; and the object is not one that \<^verbatim>\<open>__getattr__\<close>, called after the load,
  would return.
\<close>

theorem placeholder_lookup_precedence:
  assumes "module_load m mname s0 = (g, s1)" and "name \<in> set (placeholder_names m)"
  shows "dom g = set (placeholder_names m) \<and>
         (\<exists>f. g name = Some f \<and> fn_name f = name \<and>
              getattribute m mname g name s = (Inr f, s) \<and>
              returned (getattribute m mname g name s) =
                returned (getattribute m mname g name s') \<and>
              (next_id s1 \<le> next_id s \<longrightarrow>
                 returned (module_getattr m mname name s) \<noteq> Some f))"
proof -
  have g: "g = fst (module_load m mname s0)" and s1: "s1 = snd (module_load m mname s0)"
    using assms(1) by simp_all
  have d: "dom g = set (placeholder_names m)"
    unfolding g by (rule load_dom)
  then obtain f where f: "g name = Some f"
    using assms(2) by blast
  have nm: "fn_name f = name"
    using f unfolding g by (rule load_names)
  have look: "getattribute m mname g name t = (Inr f, t)" for t
    using f by (simp add: getattribute_def)
  have below: "obj_id f < next_id s1"
    using f unfolding g s1
    by (cases m)
      (auto dest: load_awadhfree_ids load_cdsfree_ids load_icsfree_ids load_verbalfree_ids)
  have fresh: "returned (module_getattr m mname name s) = Some f' \<Longrightarrow> obj_id f' = next_id s"
    for f'
    by (cases m) (auto simp add: resolver_defs returned_def split: if_splits)
  have "next_id s1 \<le> next_id s \<longrightarrow> returned (module_getattr m mname name s) \<noteq> Some f"
    using below fresh by fastforce
  with d f nm look show ?thesis by (simp add: returned_def)
qed

text \<open>
  \<^verbatim>\<open>awadhfree.module_772\<close>, object 0 of the seven the load creates, and
  \<^verbatim>\<open>verbalfree.func_323\<close>, object 19 of twenty.
\<close>

theorem placeholder_lookup_precedence_witness:
  "''module_772'' \<in> set (placeholder_names Awadhfree) \<and>
   fst (module_load Awadhfree ''awadhfree'' \<lparr>events = [], next_id = 0, depth_left = 1000\<rparr>) ''module_772'' \<noteq> None \<and>
   returned (getattribute Awadhfree ''awadhfree''
      (fst (module_load Awadhfree ''awadhfree'' \<lparr>events = [], next_id = 0, depth_left = 1000\<rparr>)) ''module_772'' \<lparr>events = [], next_id = 7, depth_left = 1000\<rparr>) =
     fst (module_load Awadhfree ''awadhfree'' \<lparr>events = [], next_id = 0, depth_left = 1000\<rparr>) ''module_772'' \<and>
   snd (getattribute Awadhfree ''awadhfree''
      (fst (module_load Awadhfree ''awadhfree'' \<lparr>events = [], next_id = 0, depth_left = 1000\<rparr>)) ''module_772'' \<lparr>events = [], next_id = 7, depth_left = 1000\<rparr>) = \<lparr>events = [], next_id = 7, depth_left = 1000\<rparr> \<and>
   obj_id (the (fst (module_load Awadhfree ''awadhfree'' \<lparr>events = [], next_id = 0, depth_left = 1000\<rparr>) ''module_772'')) = 0 \<and>
   next_id (snd (module_load Awadhfree ''awadhfree'' \<lparr>events = [], next_id = 0, depth_left = 1000\<rparr>)) = 7 \<and>
   ''func_323'' \<in> set (placeholder_names Verbalfree) \<and>
   fst (module_load Verbalfree ''verbalfree'' \<lparr>events = [], next_id = 0, depth_left = 1000\<rparr>) ''func_323'' \<noteq> None \<and>
   fn_name (the (fst (module_load Verbalfree ''verbalfree'' \<lparr>events = [], next_id = 0, depth_left = 1000\<rparr>) ''func_323'')) = ''func_323'' \<and>
   obj_id (the (fst (module_load Verbalfree ''verbalfree'' \<lparr>events = [], next_id = 0, depth_left = 1000\<rparr>) ''func_323'')) = 19"
proof -
  let ?ga = "fst (module_load Awadhfree ''awadhfree'' \<lparr>events = [], next_id = 0, depth_left = 1000\<rparr>)"
  let ?sa = "snd (module_load Awadhfree ''awadhfree'' \<lparr>events = [], next_id = 0, depth_left = 1000\<rparr>)"
  let ?gv = "fst (module_load Verbalfree ''verbalfree'' \<lparr>events = [], next_id = 0, depth_left = 1000\<rparr>)"
  let ?sv = "snd (module_load Verbalfree ''verbalfree'' \<lparr>events = [], next_id = 0, depth_left = 1000\<rparr>)"
  have la: "module_load Awadhfree ''awadhfree'' \<lparr>events = [], next_id = 0, depth_left = 1000\<rparr> = (?ga, ?sa)"
    and lv: "module_load Verbalfree ''verbalfree'' \<lparr>events = [], next_id = 0, depth_left = 1000\<rparr> = (?gv, ?sv)"
    by simp_all
  have a: "''module_772'' \<in> set (placeholder_names Awadhfree)"
    and b: "''func_323'' \<in> set (placeholder_names Verbalfree)"
    by simp_all
  have i: "obj_id (the (?ga ''module_772'')) = 0" "next_id ?sa = 7"
    "obj_id (the (?gv ''func_323'')) = 19"
    by (simp_all add: load_awadhfree_def load_verbalfree_def def_global_def new_function_def)
  from placeholder_lookup_precedence [OF la a, of "\<lparr>events = [], next_id = 7, depth_left = 1000\<rparr>"]
  obtain f where f: "?ga ''module_772'' = Some f"
    "getattribute Awadhfree ''awadhfree'' ?ga ''module_772'' \<lparr>events = [], next_id = 7, depth_left = 1000\<rparr> = (Inr f, \<lparr>events = [], next_id = 7, depth_left = 1000\<rparr>)"
    by blast
  from placeholder_lookup_precedence [OF lv b]
  obtain k where k: "?gv ''func_323'' = Some k" "fn_name k = ''func_323''"
    by blast
  have "returned (getattribute Awadhfree ''awadhfree'' ?ga ''module_772'' \<lparr>events = [], next_id = 7, depth_left = 1000\<rparr>) = ?ga ''module_772''"
    "snd (getattribute Awadhfree ''awadhfree'' ?ga ''module_772'' \<lparr>events = [], next_id = 7, depth_left = 1000\<rparr>) = \<lparr>events = [], next_id = 7, depth_left = 1000\<rparr>"
    using f by (simp_all add: returned_def)
  moreover have "?ga ''module_772'' \<noteq> None" "?gv ''func_323'' \<noteq> None"
    "fn_name (the (?gv ''func_323'')) = ''func_323''"
    using f k by simp_all
  ultimately show ?thesis using a b i by blast
qed

section \<open>Repeated resolution, logging and the shape of the test\<close>

text \<open>
  C8: resolving the same name twice, from any two states, has the same outcome (both
  calls return a function, or both raise the same error); the two functions have the same
  name and documentation and, called on the same arguments in the same state, give the
  same result and the same log; and when the second resolution follows the first, the two
  functions are different objects.
\<close>

theorem repeated_resolution_equivalent:
  "raised (module_getattr m mname name s1) = raised (module_getattr m mname name s2) \<and>
   (returned (module_getattr m mname name s1) = Some f1 \<and>
    returned (module_getattr m mname name s2) = Some f2 \<longrightarrow>
      fn_call f1 args kwargs t = fn_call f2 args kwargs t \<and>
      fn_name f1 = fn_name f2 \<and> fn_doc f1 = fn_doc f2) \<and>
   (module_getattr m mname name s1 = (Inr f1, s1') \<and>
    module_getattr m mname name s1' = (Inr f2, s2') \<longrightarrow> obj_id f1 \<noteq> obj_id f2)"
  by (cases m)
    (auto simp add: resolver_defs returned_def raised_def split: if_splits)

text \<open>\<^verbatim>\<open>func_42\<close> resolved twice in a row in \<^verbatim>\<open>verbalfree\<close>.\<close>

theorem repeated_resolution_equivalent_witness:
  "returned (module_getattr Verbalfree ''verbalfree'' ''func_42'' \<lparr>events = [], next_id = 0, depth_left = 1000\<rparr>) \<noteq> None \<and>
   returned (module_getattr Verbalfree ''verbalfree'' ''func_42'' \<lparr>events = [], next_id = 1, depth_left = 1000\<rparr>) \<noteq> None \<and>
   snd (module_getattr Verbalfree ''verbalfree'' ''func_42'' \<lparr>events = [], next_id = 0, depth_left = 1000\<rparr>) = \<lparr>events = [], next_id = 1, depth_left = 1000\<rparr> \<and>
   fn_call (the (returned (module_getattr Verbalfree ''verbalfree'' ''func_42'' \<lparr>events = [], next_id = 0, depth_left = 1000\<rparr>)))
      [PInt 1] [] \<lparr>events = [], next_id = 2, depth_left = 1000\<rparr> =
   fn_call (the (returned (module_getattr Verbalfree ''verbalfree'' ''func_42'' \<lparr>events = [], next_id = 1, depth_left = 1000\<rparr>)))
      [PInt 1] [] \<lparr>events = [], next_id = 2, depth_left = 1000\<rparr> \<and>
   obj_id (the (returned (module_getattr Verbalfree ''verbalfree'' ''func_42'' \<lparr>events = [], next_id = 0, depth_left = 1000\<rparr>))) \<noteq>
   obj_id (the (returned (module_getattr Verbalfree ''verbalfree'' ''func_42'' \<lparr>events = [], next_id = 1, depth_left = 1000\<rparr>)))"
proof -
  obtain f1 where a: "module_getattr Verbalfree ''verbalfree'' ''func_42'' \<lparr>events = [], next_id = 0, depth_left = 1000\<rparr> = (Inr f1, \<lparr>events = [], next_id = 1, depth_left = 1000\<rparr>)"
    by (simp add: resolver_defs startswith_def startswith1_def)
  obtain f2 s2 where b: "module_getattr Verbalfree ''verbalfree'' ''func_42'' \<lparr>events = [], next_id = 1, depth_left = 1000\<rparr> = (Inr f2, s2)"
    by (simp add: resolver_defs startswith_def startswith1_def)
  have r: "returned (module_getattr Verbalfree ''verbalfree'' ''func_42'' \<lparr>events = [], next_id = 0, depth_left = 1000\<rparr>) = Some f1"
    "returned (module_getattr Verbalfree ''verbalfree'' ''func_42'' \<lparr>events = [], next_id = 1, depth_left = 1000\<rparr>) = Some f2"
    using a b by (simp_all add: returned_def)
  from repeated_resolution_equivalent
    [of Verbalfree "''verbalfree''" "''func_42''" "\<lparr>events = [], next_id = 0, depth_left = 1000\<rparr>" "\<lparr>events = [], next_id = 1, depth_left = 1000\<rparr>" f1 f2 "[PInt 1]" "[]" "\<lparr>events = [], next_id = 2, depth_left = 1000\<rparr>" "\<lparr>events = [], next_id = 1, depth_left = 1000\<rparr>" s2]
    a b r
  show ?thesis by simp
qed

text \<open>
  Against C9 as stated: resolving \<^verbatim>\<open>module_9999\<close> in \<^verbatim>\<open>cdsfree\<close> returns a stub and
  the log is still empty afterwards: no event is emitted for the resolution.
\<close>

theorem resolution_logs_nothing_counterexample:
  "returned (getattr_cdsfree ''cdsfree'' ''module_9999'' \<lparr>events = [], next_id = 0, depth_left = 1000\<rparr>) \<noteq> None \<and>
   events (snd (getattr_cdsfree ''cdsfree'' ''module_9999'' \<lparr>events = [], next_id = 0, depth_left = 1000\<rparr>)) = []"
  by (simp add: resolver_defs returned_def startswith_def startswith1_def)

text \<open>
  C9 (amended): a call of \<^verbatim>\<open>__getattr__\<close> emits no logging event, whether it returns a
  stub or raises; each call of a stub emits exactly one event, at level WARNING, on the
  module's logger, carrying the bound name, the positional arguments and the keyword
  arguments.
\<close>

theorem only_stub_invocation_logs:
  "events (snd (module_getattr m mname name s)) = events s \<and>
   (returned (module_getattr m mname name s) = Some f \<longrightarrow>
      (\<exists>e. events (snd (fn_call f args kwargs t)) = events t @ [e] \<and>
           ev_level e = WARNING \<and> ev_logger e = mname \<and>
           ev_args e = [PStr name, PTuple args, PDict kwargs]))"
  by (cases m)
    (auto simp add: resolver_defs returned_def stub_defs log_defs split: if_splits)

text \<open>\<^verbatim>\<open>module_9999(1, 2, x=3)\<close> in \<^verbatim>\<open>cdsfree\<close>: nothing at resolution, one warning at the call.\<close>

theorem only_stub_invocation_logs_witness:
  "returned (module_getattr Cdsfree ''cdsfree'' ''module_9999'' \<lparr>events = [], next_id = 0, depth_left = 1000\<rparr>) \<noteq> None \<and>
   events (snd (module_getattr Cdsfree ''cdsfree'' ''module_9999'' \<lparr>events = [], next_id = 0, depth_left = 1000\<rparr>)) = [] \<and>
   events (snd (fn_call (the (returned (module_getattr Cdsfree ''cdsfree'' ''module_9999'' \<lparr>events = [], next_id = 0, depth_left = 1000\<rparr>)))
      [PInt 1, PInt 2] [(''x'', PInt 3)] \<lparr>events = [], next_id = 1, depth_left = 1000\<rparr>)) =
     [\<lparr>ev_logger = ''cdsfree'', ev_level = WARNING,
       ev_msg = ''Stub called: %s args=%s kwargs=%s'',
       ev_args = [PStr ''module_9999'', PTuple [PInt 1, PInt 2], PDict [(''x'', PInt 3)]]\<rparr>]"
proof -
  obtain f where h: "returned (module_getattr Cdsfree ''cdsfree'' ''module_9999'' \<lparr>events = [], next_id = 0, depth_left = 1000\<rparr>) = Some f"
    by (simp add: resolver_defs returned_def startswith_def startswith1_def)
  have call: "events (snd (fn_call f [PInt 1, PInt 2] [(''x'', PInt 3)] \<lparr>events = [], next_id = 1, depth_left = 1000\<rparr>)) =
     [\<lparr>ev_logger = ''cdsfree'', ev_level = WARNING,
       ev_msg = ''Stub called: %s args=%s kwargs=%s'',
       ev_args = [PStr ''module_9999'', PTuple [PInt 1, PInt 2], PDict [(''x'', PInt 3)]]\<rparr>]"
    using h
    by (auto simp add: resolver_defs returned_def stub_defs log_defs
        startswith_def startswith1_def)
  from only_stub_invocation_logs [of Cdsfree "''cdsfree''" "''module_9999''" "\<lparr>events = [], next_id = 0, depth_left = 1000\<rparr>" f]
    h call
  show ?thesis by simp
qed

text \<open>
  Against C10 as stated: in \<^verbatim>\<open>awadhfree\<close> the names \<^verbatim>\<open>abcdefgh\<close> and \<^verbatim>\<open>abcdefg-\<close>
  share their first seven characters, as many as the longer prefix has; the first is
  accepted and the second is rejected. The outcome depends on the last character.
\<close>

theorem wide_variant_whole_name_counterexample:
  "take 7 ''abcdefgh'' = take 7 ''abcdefg-'' \<and>
   returned (getattr_awadhfree ''awadhfree'' ''abcdefgh'' \<lparr>events = [], next_id = 0, depth_left = 1000\<rparr>) \<noteq> None \<and>
   returned (getattr_awadhfree ''awadhfree'' ''abcdefg-'' \<lparr>events = [], next_id = 0, depth_left = 1000\<rparr>) = None \<and>
   raised (getattr_awadhfree ''awadhfree'' ''abcdefg-'' \<lparr>events = [], next_id = 0, depth_left = 1000\<rparr>) =
     Some (AttributeError (no_attribute_msg ''awadhfree'' ''abcdefg-''))"
  by (simp add: resolver_defs returned_def raised_def startswith_def startswith1_def ident_defs)

text \<open>
  C10 (amended): in \<^verbatim>\<open>cdsfree\<close>, \<^verbatim>\<open>icsfree\<close> and \<^verbatim>\<open>verbalfree\<close> the outcome is decided
  by the first seven characters of the name alone. In all four modules a name that starts
  with \<^verbatim>\<open>module_\<close> or \<^verbatim>\<open>func_\<close> is accepted, identifier or not, and for every string
  the resolver either returns a function or raises the \<^verbatim>\<open>AttributeError\<close> for that name,
  never anything else. In \<^verbatim>\<open>awadhfree\<close> no number \<open>k\<close> of leading characters decides the
  outcome: two names that agree on their first \<open>k\<close> characters are classified differently.
\<close>

theorem classification_by_prefix:
  "(m \<noteq> Awadhfree \<and> take 7 n1 = take 7 n2 \<longrightarrow>
      (returned (module_getattr m mname n1 s) = None) =
      (returned (module_getattr m mname n2 s) = None)) \<and>
   (startswith name [''module_'', ''func_''] \<longrightarrow>
      returned (module_getattr m mname name s) \<noteq> None) \<and>
   (raised (module_getattr m mname name s) = None \<or>
    raised (module_getattr m mname name s) =
      Some (AttributeError (no_attribute_msg mname name))) \<and>
   (\<exists>a b. take k a = take k b \<and>
      returned (getattr_awadhfree mname a s) \<noteq> None \<and>
      returned (getattr_awadhfree mname b s) = None)"
proof -
  have one: "m \<noteq> Awadhfree \<and> take 7 n1 = take 7 n2 \<longrightarrow>
      (returned (module_getattr m mname n1 s) = None) =
      (returned (module_getattr m mname n2 s) = None)"
    by (cases m) (auto simp add: resolver_defs returned_def dest: startswith_take7)
  have two: "startswith name [''module_'', ''func_''] \<longrightarrow>
      returned (module_getattr m mname name s) \<noteq> None"
    by (cases m) (simp_all add: resolver_defs returned_def)
  have three: "raised (module_getattr m mname name s) = None \<or>
    raised (module_getattr m mname name s) =
      Some (AttributeError (no_attribute_msg mname name))"
    by (cases m) (simp_all add: resolver_defs raised_def)
  let ?a = "CHR ''a'' # replicate k (CHR ''a'')"
  let ?b = "CHR ''a'' # replicate k (CHR ''a'') @ ''-''"
  have "take k ?a = take k ?b"
    using take_shorter [of ?a k "''-''"] by simp
  moreover have "returned (getattr_awadhfree mname ?a s) \<noteq> None"
    using long_identifier [of k] by (simp add: resolver_defs returned_def)
  moreover have "returned (getattr_awadhfree mname ?b s) = None"
    using long_non_identifier [of k] not_prefixed_a [of "replicate k (CHR ''a'') @ ''-''"]
    by (simp add: getattr_awadhfree_def returned_def)
  ultimately have four: "\<exists>a b. take k a = take k b \<and>
      returned (getattr_awadhfree mname a s) \<noteq> None \<and>
      returned (getattr_awadhfree mname b s) = None"
    by blast
  from one two three four show ?thesis by blast
qed

text \<open>
  \<^verbatim>\<open>module_-x\<close> in \<^verbatim>\<open>cdsfree\<close>: prefixed, not an identifier, accepted, and classified as
  \<^verbatim>\<open>module_9999\<close> is; the empty string raises \<^verbatim>\<open>AttributeError\<close>.
\<close>

theorem classification_by_prefix_witness:
  "Cdsfree \<noteq> Awadhfree \<and> take 7 ''module_-x'' = take 7 ''module_9999'' \<and>
   startswith ''module_-x'' [''module_'', ''func_''] \<and> \<not> isidentifier ''module_-x'' \<and>
   returned (module_getattr Cdsfree ''cdsfree'' ''module_-x'' \<lparr>events = [], next_id = 0, depth_left = 1000\<rparr>) \<noteq> None \<and>
   returned (module_getattr Cdsfree ''cdsfree'' ''module_9999'' \<lparr>events = [], next_id = 0, depth_left = 1000\<rparr>) \<noteq> None \<and>
   raised (module_getattr Cdsfree ''cdsfree'' [] \<lparr>events = [], next_id = 0, depth_left = 1000\<rparr>) =
     Some (AttributeError (no_attribute_msg ''cdsfree'' []))"
proof -
  have a: "take 7 ''module_-x'' = take 7 ''module_9999''" by simp
  have b: "startswith ''module_-x'' [''module_'', ''func_'']"
    by (simp add: startswith_def startswith1_def)
  have c: "\<not> isidentifier ''module_-x''" by (simp add: ident_defs)
  have d: "Cdsfree \<noteq> Awadhfree" by simp
  have e: "raised (module_getattr Cdsfree ''cdsfree'' [] \<lparr>events = [], next_id = 0, depth_left = 1000\<rparr>) \<noteq> None"
    by (simp add: resolver_defs raised_def startswith_def startswith1_def)
  from classification_by_prefix
    [of Cdsfree "''module_-x''" "''module_9999''" "''cdsfree''" "\<lparr>events = [], next_id = 0, depth_left = 1000\<rparr>" "''module_-x''" 0]
    classification_by_prefix [of Cdsfree "[]" "[]" "''cdsfree''" "\<lparr>events = [], next_id = 0, depth_left = 1000\<rparr>" "[]" 0]
    a b c d e
  show ?thesis by blast
qed

end
